theory Spec2Isabelle
  imports Main "HOL-Library.AList"
begin

section \<open>The events socket server of the React Native CLI\<close>

text \<open>
  A shallow embedding of \<^verbatim>\<open>packages/cli-server-api/src/websocket/eventsSocketServer.ts\<close>.
  The module keeps a map of connected developer tools, sends every Metro report to all of
  them, and forwards the commands they send to the message socket of the connected apps.

  JavaScript raises exceptions, so every function that can raise returns a sum: \<open>Inl\<close>
  is the exception, \<open>Inr\<close> the value. Calls into the outside world (the logger, the
  client sockets, the message socket) are recorded as a list of effects, in program order.
\<close>

subsection \<open>JavaScript values\<close>

text \<open>
  The values a Metro report or a decoded message is made of. An object is the list of its
  own enumerable properties in property order; a lookup takes the first entry of a key.
  \<open>JErrorInstance\<close> is an instance of \<^verbatim>\<open>Error\<close> carrying its message: its
  \<^verbatim>\<open>message\<close> and \<^verbatim>\<open>stack\<close> are not enumerable. \<open>JNumber n\<close> is the
  number \<open>n\<close> for an integer of magnitude below \<open>2 ^ 53\<close>, where every integer is a
  double and prints as its plain decimal digits; a larger \<open>n\<close> stands for no JavaScript
  number (from \<open>10 ^ 21\<close> on JavaScript prints an exponent), and no statement below reads
  the digits of a number. Fractions, \<^verbatim>\<open>NaN\<close> and the infinities are left out, and so
  are functions, symbols, getters and cyclic objects, which a finite datatype cannot hold.
\<close>

datatype jsval =
    JUndefined
  | JNull
  | JBoolean bool
  | JNumber int
  | JBigInt int
  | JString string
  | JArray "jsval list"
  | JObject "(string \<times> jsval) list"
  | JErrorInstance string

datatype jserror = TypeError string | SyntaxError string | OtherError string

text \<open>Sequencing of computations that may raise: the first exception wins.\<close>

definition bindE :: "jserror + 'a \<Rightarrow> ('a \<Rightarrow> jserror + 'b) \<Rightarrow> jserror + 'b" where
  "bindE m f = (case m of Inl e \<Rightarrow> Inl e | Inr x \<Rightarrow> f x)"

text \<open>\<^verbatim>\<open>if (v)\<close>, \<^verbatim>\<open>!v\<close> and \<^verbatim>\<open>v && ...\<close>: the truthiness of a value.\<close>

fun truthy :: "jsval \<Rightarrow> bool" where
  "truthy JUndefined = False"
| "truthy JNull = False"
| "truthy (JBoolean b) = b"
| "truthy (JNumber n) = (n \<noteq> 0)"
| "truthy (JBigInt n) = (n \<noteq> 0)"
| "truthy (JString s) = (s \<noteq> [])"
| "truthy (JArray xs) = True"
| "truthy (JObject ps) = True"
| "truthy (JErrorInstance m) = True"

text \<open>
  \<^verbatim>\<open>v.key\<close> for the keys the module reads (\<^verbatim>\<open>version\<close>, \<^verbatim>\<open>type\<close>,
  \<^verbatim>\<open>command\<close>, \<^verbatim>\<open>params\<close>, \<^verbatim>\<open>error\<close>, \<^verbatim>\<open>data\<close>): reading a property
  of \<^verbatim>\<open>null\<close> or \<^verbatim>\<open>undefined\<close> raises a TypeError, an object gives the
  property or \<^verbatim>\<open>undefined\<close>, and no primitive, array or plain Error has one of these
  keys.
\<close>

fun getProp :: "jsval \<Rightarrow> string \<Rightarrow> jserror + jsval" where
  "getProp JUndefined k =
     Inl (TypeError (''Cannot read properties of undefined (reading '' @ CHR 0x27 # k @ CHR 0x27 # '')''))"
| "getProp JNull k =
     Inl (TypeError (''Cannot read properties of null (reading '' @ CHR 0x27 # k @ CHR 0x27 # '')''))"
| "getProp (JObject ps) k = Inr (case map_of ps k of None \<Rightarrow> JUndefined | Some v \<Rightarrow> v)"
| "getProp v k = Inr JUndefined"

fun instanceofError :: "jsval \<Rightarrow> bool" where
  "instanceofError (JErrorInstance m) = True"
| "instanceofError v = False"

fun typeofString :: "jsval \<Rightarrow> bool" where
  "typeofString (JString s) = True"
| "typeofString v = False"

subsection \<open>Numbers as decimal text\<close>

fun digitsOf :: "nat \<Rightarrow> string" where
  "digitsOf n =
     (if n < 10 then [char_of (48 + n)]
      else digitsOf (n div 10) @ [char_of (48 + n mod 10)])"

definition numberToString :: "int \<Rightarrow> string" where
  "numberToString i = (if i < 0 then CHR ''-'' # digitsOf (nat (- i)) else digitsOf (nat i))"

text \<open>
  The object spread \<^verbatim>\<open>{...v}\<close>: the own enumerable properties of \<open>v\<close>. An array
  and a string spread their indices; the other primitives and a plain Error have none.
\<close>

fun spread :: "jsval \<Rightarrow> (string \<times> jsval) list" where
  "spread (JObject ps) = ps"
| "spread (JArray xs) = zip (map digitsOf [0..<length xs]) xs"
| "spread (JString s) = zip (map digitsOf [0..<length s]) (map (\<lambda>c. JString [c]) s)"
| "spread v = []"

subsection \<open>\<^verbatim>\<open>JSON.stringify\<close>\<close>

text \<open>
  The platform's encoder, on the values above (ECMAScript, SerializeJSONProperty with no
  replacer and no indentation). It answers \<open>None\<close> for \<^verbatim>\<open>undefined\<close>, which is
  JavaScript's \<^verbatim>\<open>JSON.stringify(undefined) === undefined\<close>, and raises a TypeError on a
  BigInt. Inside an array \<^verbatim>\<open>undefined\<close> is written \<^verbatim>\<open>null\<close>; inside an object
  such a property is skipped. A plain Error has no enumerable property and is written
  \<^verbatim>\<open>{}\<close>.
\<close>

definition hexDigit :: "nat \<Rightarrow> char" where
  "hexDigit d = (if d < 10 then char_of (48 + d) else char_of (87 + d))"

definition quoteChar :: "char \<Rightarrow> string" where
  "quoteChar c =
     (if c = CHR 0x08 then [CHR 0x5C, CHR ''b'']
      else if c = CHR 0x09 then [CHR 0x5C, CHR ''t'']
      else if c = CHR 0x0A then [CHR 0x5C, CHR ''n'']
      else if c = CHR 0x0C then [CHR 0x5C, CHR ''f'']
      else if c = CHR 0x0D then [CHR 0x5C, CHR ''r'']
      else if c = CHR 0x22 then [CHR 0x5C, CHR 0x22]
      else if c = CHR 0x5C then [CHR 0x5C, CHR 0x5C]
      else if (of_char c :: nat) < 32 then
        [CHR 0x5C, CHR ''u'', CHR ''0'', CHR ''0'',
         hexDigit (of_char c div 16), hexDigit (of_char c mod 16)]
      else [c])"

definition quoteJSONString :: "string \<Rightarrow> string" where
  "quoteJSONString s = CHR 0x22 # concat (map quoteChar s) @ [CHR 0x22]"

fun joinComma :: "string list \<Rightarrow> string" where
  "joinComma [] = []"
| "joinComma [x] = x"
| "joinComma (x # y # ys) = x @ CHR '','' # joinComma (y # ys)"

fun serializeJSONProperty :: "jsval \<Rightarrow> jserror + string option"
  and serializeJSONArray :: "jsval list \<Rightarrow> jserror + string list"
  and serializeJSONObject :: "(string \<times> jsval) list \<Rightarrow> jserror + string list"
where
  "serializeJSONProperty JUndefined = Inr None"
| "serializeJSONProperty JNull = Inr (Some ''null'')"
| "serializeJSONProperty (JBoolean b) = Inr (Some (if b then ''true'' else ''false''))"
| "serializeJSONProperty (JNumber n) = Inr (Some (numberToString n))"
| "serializeJSONProperty (JBigInt n) = Inl (TypeError ''Do not know how to serialize a BigInt'')"
| "serializeJSONProperty (JString s) = Inr (Some (quoteJSONString s))"
| "serializeJSONProperty (JArray xs) =
     bindE (serializeJSONArray xs) (\<lambda>parts. Inr (Some (CHR ''['' # joinComma parts @ '']'')))"
| "serializeJSONProperty (JObject ps) =
     bindE (serializeJSONObject ps) (\<lambda>parts. Inr (Some (CHR ''{'' # joinComma parts @ ''}'')))"
| "serializeJSONProperty (JErrorInstance m) = Inr (Some ''{}'')"
| "serializeJSONArray [] = Inr []"
| "serializeJSONArray (x # xs) =
     bindE (serializeJSONProperty x) (\<lambda>strP.
     bindE (serializeJSONArray xs) (\<lambda>rest.
       Inr ((case strP of None \<Rightarrow> ''null'' | Some s \<Rightarrow> s) # rest)))"
| "serializeJSONObject [] = Inr []"
| "serializeJSONObject ((k, v) # ps) =
     bindE (serializeJSONProperty v) (\<lambda>strP.
     bindE (serializeJSONObject ps) (\<lambda>rest.
       Inr (case strP of None \<Rightarrow> rest | Some s \<Rightarrow> (quoteJSONString k @ CHR '':'' # s) # rest)))"

definition JSON_stringify :: "jsval \<Rightarrow> jserror + string option" where
  "JSON_stringify v = serializeJSONProperty v"

subsection \<open>The access filter\<close>

text \<open>
  \<^verbatim>\<open>verifyClient({origin})\<close>: the origin header is \<open>None\<close> when the request has
  none (\<^verbatim>\<open>undefined\<close>). \<^verbatim>\<open>!origin\<close> holds for \<^verbatim>\<open>undefined\<close> and for the empty
  string.
\<close>

definition startsWith :: "string \<Rightarrow> string \<Rightarrow> bool" where
  "startsWith s p = (take (length p) s = p)"

definition verifyClient :: "string option \<Rightarrow> bool" where
  "verifyClient origin =
     (case origin of
        None \<Rightarrow> True
      | Some s \<Rightarrow> s = [] \<or> startsWith s ''http://localhost:'' \<or> startsWith s ''file:'')"

subsection \<open>\<^verbatim>\<open>pretty-format\<close>, the logger and the effects\<close>

text \<open>
  \<^verbatim>\<open>prettyFormat(value, options)\<close> comes from the \<^verbatim>\<open>pretty-format\<close> package. It
  is a parameter of the model: a function from a value and the options to a text. The
  options are the ones the module writes down; \<open>maxDepth\<close> bounds the depth of the
  rendering, \<open>min'\<close> (the package's \<^verbatim>\<open>min\<close>) asks for a single line and
  \<open>escapeString\<close> for escaped string contents.
\<close>

datatype pf_plugin = ReactElement

record pf_options =
  escapeString :: bool
  highlight :: bool
  maxDepth :: nat
  min' :: bool
  plugins :: "pf_plugin list"

text \<open>The calls of \<^verbatim>\<open>logger.error\<close>, one constructor for each call site.\<close>

datatype log_entry =
    WrongProtocolVersion jsval
  | FailedToParse string
  | FailedToSerialize jserror
  | FailedToSend jserror
  | FailedToForward jserror
  | UnknownMessageType jsval

text \<open>
  What the module does to the outside: a call of \<^verbatim>\<open>logger.error\<close>, a call of
  \<^verbatim>\<open>ws.send(payload)\<close> on a client socket, a call of
  \<^verbatim>\<open>messageSocket.broadcast(command, params)\<close>.
\<close>

datatype 'ws effect =
    LoggerError log_entry
  | WsSend 'ws jsval
  | MessageSocketBroadcast jsval jsval

subsection \<open>The codec\<close>

definition PROTOCOL_VERSION :: int where
  "PROTOCOL_VERSION = 2"

text \<open>
  The string concatenation \<^verbatim>\<open>'...' + v\<close> turns \<open>v\<close> into a primitive. It raises a
  TypeError on an object that has a property \<^verbatim>\<open>toString\<close> of its own, since no value
  here is a function and the inherited \<^verbatim>\<open>valueOf\<close> gives the object back; an array
  is joined, its elements other than \<^verbatim>\<open>null\<close> and \<^verbatim>\<open>undefined\<close> turned into
  strings the same way.
\<close>

fun concatRaises :: "jsval \<Rightarrow> bool" where
  "concatRaises (JObject ps) = (map_of ps ''toString'' \<noteq> None)"
| "concatRaises (JArray xs) = list_ex concatRaises xs"
| "concatRaises v = False"

text \<open>
  \<^verbatim>\<open>parseMessage(data)\<close>. \<^verbatim>\<open>JSON.parse\<close> is a parameter, a function that
  raises or gives a value. The \<^verbatim>\<open>try\<close> block holds the decoding, the reads of
  \<^verbatim>\<open>message.version\<close> and the text of the wrong-version log entry; whatever raises
  inside is caught and logged as a failure to parse. The result \<^verbatim>\<open>undefined\<close> is
  \<open>JUndefined\<close>.
\<close>

definition parseMessage :: "(string \<Rightarrow> jserror + jsval) \<Rightarrow> string \<Rightarrow> log_entry list \<times> jsval" where
  "parseMessage JSON_parse data =
     (case bindE (JSON_parse data) (\<lambda>message.
           bindE (getProp message ''version'') (\<lambda>version. Inr (message, version))) of
        Inl e \<Rightarrow> ([FailedToParse data], JUndefined)
      | Inr (message, version) \<Rightarrow>
          if version = JNumber PROTOCOL_VERSION then ([], message)
          else if concatRaises version then ([FailedToParse data], JUndefined)
          else ([WrongProtocolVersion version], JUndefined))"

text \<open>
  \<^verbatim>\<open>message.data.map(f)\<close>: reading \<^verbatim>\<open>map\<close> of \<^verbatim>\<open>undefined\<close> or
  \<^verbatim>\<open>null\<close> raises, and so does calling \<^verbatim>\<open>map\<close> on a value that has no such
  method; only an array has one.
\<close>

fun dataMap :: "(jsval \<Rightarrow> jsval) \<Rightarrow> jsval \<Rightarrow> jserror + jsval" where
  "dataMap f (JArray xs) = Inr (JArray (map f xs))"
| "dataMap f JUndefined = Inl (TypeError ''Cannot read properties of undefined (reading 'map')'')"
| "dataMap f JNull = Inl (TypeError ''Cannot read properties of null (reading 'map')'')"
| "dataMap f v = Inl (TypeError ''message.data.map is not a function'')"

definition errorOptions :: pf_options where
  "errorOptions =
     \<lparr>escapeString = True, highlight = True, maxDepth = 3, min' = True, plugins = []\<rparr>"

definition clientLogOptions :: pf_options where
  "clientLogOptions =
     \<lparr>escapeString = True, highlight = True, maxDepth = 3, min' = True,
      plugins = [ReactElement]\<rparr>"

text \<open>
  The first half of \<^verbatim>\<open>serializeMessage\<close>: the value of the variable
  \<^verbatim>\<open>toSerialize\<close> when the \<^verbatim>\<open>try\<close> block is reached. The object literal
  \<^verbatim>\<open>{...message, key: v}\<close> keeps the place of a key the message has and puts a new
  key last, which is \<open>AList.update\<close>.
\<close>

definition formatItem :: "(jsval \<Rightarrow> pf_options \<Rightarrow> string) \<Rightarrow> jsval \<Rightarrow> jsval" where
  "formatItem prettyFormat item =
     (if typeofString item then item else JString (prettyFormat item clientLogOptions))"

definition toSerialize :: "(jsval \<Rightarrow> pf_options \<Rightarrow> string) \<Rightarrow> jsval \<Rightarrow> jserror + jsval" where
  "toSerialize prettyFormat message =
     (if \<not> truthy message then Inr message
      else bindE (getProp message ''error'') (\<lambda>error.
        if truthy error \<and> instanceofError error then
          Inr (JObject (AList.update ''error'' (JString (prettyFormat error errorOptions))
                 (spread message)))
        else bindE (getProp message ''type'') (\<lambda>type.
          if type = JString ''client_log'' then
            bindE (getProp message ''data'') (\<lambda>data.
            bindE (dataMap (formatItem prettyFormat) data) (\<lambda>mapped.
              Inr (JObject (AList.update ''data'' mapped (spread message)))))
          else Inr message)))"

text \<open>
  \<^verbatim>\<open>serializeMessage(message)\<close>: the text, \<^verbatim>\<open>undefined\<close> when
  \<^verbatim>\<open>JSON.stringify\<close> answers so, or \<^verbatim>\<open>null\<close> after a logged failure of the
  encoder. An exception raised before the \<^verbatim>\<open>try\<close> block leaves the function.
\<close>

definition serializeMessage ::
  "(jsval \<Rightarrow> pf_options \<Rightarrow> string) \<Rightarrow> jsval \<Rightarrow> jserror + (log_entry list \<times> jsval)" where
  "serializeMessage prettyFormat message =
     bindE (toSerialize prettyFormat message) (\<lambda>v.
       case JSON_stringify v of
         Inl e \<Rightarrow> Inr ([FailedToSerialize e], JNull)
       | Inr None \<Rightarrow> Inr ([], JUndefined)
       | Inr (Some text) \<Rightarrow> Inr ([], JString text))"

subsection \<open>The server\<close>

text \<open>
  The state \<^verbatim>\<open>attachToServer\<close> creates and its callbacks close over: the map
  \<^verbatim>\<open>clients\<close>, in insertion order as a JavaScript \<^verbatim>\<open>Map\<close> keeps it, and the
  counter \<^verbatim>\<open>nextClientId\<close>. The counter is a JavaScript number; it counts exactly
  below \<open>2 ^ 53\<close>, far more connections than a process sees, and is a natural number
  here.
\<close>

record 'ws server =
  clients :: "(string \<times> 'ws) list"
  nextClientId :: nat

definition attachToServer :: "'ws server" where
  "attachToServer = \<lparr>clients = [], nextClientId = 0\<rparr>"

text \<open>
  The loop over \<^verbatim>\<open>clients.values()\<close>. \<open>send ws payload\<close> is the socket's
  \<^verbatim>\<open>ws.send(payload)\<close>: \<open>None\<close> when it returns, \<open>Some e\<close> when it raises.
\<close>

fun sendToAll :: "('ws \<Rightarrow> jsval \<Rightarrow> jserror option) \<Rightarrow> jsval \<Rightarrow> (string \<times> 'ws) list \<Rightarrow> 'ws effect list" where
  "sendToAll send serialized [] = []"
| "sendToAll send serialized ((clientId, ws) # rest) =
     (case send ws serialized of
        None \<Rightarrow> [WsSend ws serialized]
      | Some e \<Rightarrow> [WsSend ws serialized, LoggerError (FailedToSend e)])
     @ sendToAll send serialized rest"

definition broadCastEvent ::
  "(jsval \<Rightarrow> pf_options \<Rightarrow> string) \<Rightarrow> ('ws \<Rightarrow> jsval \<Rightarrow> jserror option) \<Rightarrow> 'ws server \<Rightarrow> jsval
     \<Rightarrow> jserror + ('ws server \<times> 'ws effect list)" where
  "broadCastEvent prettyFormat send st message =
     (if clients st = [] then Inr (st, [])
      else bindE (serializeMessage prettyFormat message) (\<lambda>(logs, serialized).
        if \<not> truthy serialized then Inr (st, map LoggerError logs)
        else Inr (st, map LoggerError logs @ sendToAll send serialized (clients st))))"

definition reportEvent ::
  "(jsval \<Rightarrow> pf_options \<Rightarrow> string) \<Rightarrow> ('ws \<Rightarrow> jsval \<Rightarrow> jserror option) \<Rightarrow> 'ws server \<Rightarrow> jsval
     \<Rightarrow> jserror + ('ws server \<times> 'ws effect list)" where
  "reportEvent prettyFormat send st event = broadCastEvent prettyFormat send st event"

text \<open>The \<^verbatim>\<open>connection\<close> handler: the id it assigns and the new state.\<close>

definition clientIdOf :: "nat \<Rightarrow> string" where
  "clientIdOf n = ''client#'' @ digitsOf n"

definition onconnection :: "'ws server \<Rightarrow> 'ws \<Rightarrow> string \<times> 'ws server" where
  "onconnection st clientWs =
     (let clientId = clientIdOf (nextClientId st) in
      (clientId,
       st\<lparr>nextClientId := nextClientId st + 1,
          clients := AList.update clientId clientWs (clients st)\<rparr>))"

text \<open>\<^verbatim>\<open>clientWs.onclose = clientWs.onerror = () => clients.delete(clientId)\<close>.\<close>

definition onclose :: "'ws server \<Rightarrow> string \<Rightarrow> 'ws server" where
  "onclose st clientId = st\<lparr>clients := AList.delete clientId (clients st)\<rparr>"

definition onerror :: "'ws server \<Rightarrow> string \<Rightarrow> 'ws server" where
  "onerror st clientId = onclose st clientId"

text \<open>
  \<^verbatim>\<open>clientWs.onmessage\<close>, on the text of the message. \<open>broadcast command params\<close>
  is \<^verbatim>\<open>messageSocket.broadcast(command, params)\<close>: \<open>None\<close> when it returns,
  \<open>Some e\<close> when it raises. The reads of \<^verbatim>\<open>message.command\<close> and
  \<^verbatim>\<open>message.params\<close> stand inside the \<^verbatim>\<open>try\<close> block.
\<close>

definition onmessage ::
  "(string \<Rightarrow> jserror + jsval) \<Rightarrow> (jsval \<Rightarrow> jsval \<Rightarrow> jserror option) \<Rightarrow> 'ws server \<Rightarrow> string
     \<Rightarrow> jserror + ('ws server \<times> 'ws effect list)" where
  "onmessage JSON_parse broadcast st data =
     (case parseMessage JSON_parse data of
        (logs, message) \<Rightarrow>
          if message = JNull \<or> message = JUndefined then Inr (st, map LoggerError logs)
          else bindE (getProp message ''type'') (\<lambda>type.
            if type = JString ''command'' then
              (case bindE (getProp message ''command'') (\<lambda>command.
                    bindE (getProp message ''params'') (\<lambda>params. Inr (command, params))) of
                 Inl e \<Rightarrow> Inr (st, map LoggerError logs @ [LoggerError (FailedToForward e)])
               | Inr (command, params) \<Rightarrow>
                   Inr (st, map LoggerError logs @ MessageSocketBroadcast command params #
                     (case broadcast command params of
                        None \<Rightarrow> []
                      | Some e \<Rightarrow> [LoggerError (FailedToForward e)])))
            else Inr (st, map LoggerError logs @ [LoggerError (UnknownMessageType type)])))"

text \<open>
  The server as a whole: the collaborators it is attached to, the signals the transport
  and the reporter give it, and a run from a state. One callback runs at a time. An
  exception that leaves \<^verbatim>\<open>reportEvent\<close> goes to the reporter and leaves the state as
  it was. \<open>run\<close> gives the ids assigned along the way, in order, and the last state.
\<close>

record 'ws collaborators =
  prettyFormat :: "jsval \<Rightarrow> pf_options \<Rightarrow> string"
  JSON_parse :: "string \<Rightarrow> jserror + jsval"
  ws_send :: "'ws \<Rightarrow> jsval \<Rightarrow> jserror option"
  messageSocket_broadcast :: "jsval \<Rightarrow> jsval \<Rightarrow> jserror option"

datatype 'ws signal =
    OnConnection 'ws
  | OnClose string
  | OnError string
  | OnMessage string
  | ReportEvent jsval

fun step :: "'ws collaborators \<Rightarrow> 'ws server \<Rightarrow> 'ws signal \<Rightarrow> jserror + ('ws server \<times> 'ws effect list)" where
  "step env st (OnConnection clientWs) = Inr (snd (onconnection st clientWs), [])"
| "step env st (OnClose clientId) = Inr (onclose st clientId, [])"
| "step env st (OnError clientId) = Inr (onerror st clientId, [])"
| "step env st (OnMessage data) = onmessage (JSON_parse env) (messageSocket_broadcast env) st data"
| "step env st (ReportEvent event) = reportEvent (prettyFormat env) (ws_send env) st event"

fun run :: "'ws collaborators \<Rightarrow> 'ws server \<Rightarrow> 'ws signal list \<Rightarrow> string list \<times> 'ws server" where
  "run env st [] = ([], st)"
| "run env st (sig # sigs) =
     (let st' = (case step env st sig of Inl e \<Rightarrow> st | Inr (st', effects) \<Rightarrow> st');
          (ids, final) = run env st' sigs
      in ((case sig of OnConnection clientWs \<Rightarrow> [fst (onconnection st clientWs)] | _ \<Rightarrow> []) @ ids,
          final))"

text \<open>The calls of \<^verbatim>\<open>ws.send\<close> among the effects: the socket and the payload, in order.\<close>

definition sends :: "'ws effect list \<Rightarrow> ('ws \<times> jsval) list" where
  "sends effects =
     concat (map (\<lambda>fx. case fx of WsSend ws payload \<Rightarrow> [(ws, payload)] | _ \<Rightarrow> []) effects)"

text \<open>The calls of \<^verbatim>\<open>messageSocket.broadcast\<close> among the effects.\<close>

definition relayed :: "'ws effect list \<Rightarrow> (jsval \<times> jsval) list" where
  "relayed effects =
     concat (map (\<lambda>fx. case fx of MessageSocketBroadcast command params \<Rightarrow> [(command, params)]
                         | _ \<Rightarrow> []) effects)"

text \<open>
  The registry is well formed when its keys are pairwise distinct and each of them is an id
  the counter has already passed.
\<close>

definition registryOk :: "'ws server \<Rightarrow> bool" where
  "registryOk st \<longleftrightarrow> distinct (map fst (clients st))
     \<and> set (map fst (clients st)) \<subseteq> clientIdOf ` {..<nextClientId st}"

subsection \<open>Sample collaborators for the worked examples\<close>

text \<open>
  Stand-ins used only where a statement is run on a concrete input: a formatter that
  renders an Error as \<^verbatim>\<open>[Error: message]\<close>, a decoder that knows the messages of
  the examples and raises on any other text, sockets numbered by naturals of which
  number 2 raises on every write, and a message socket that raises on the command
  \<^verbatim>\<open>crash\<close>.
\<close>

definition samplePrettyFormat :: "jsval \<Rightarrow> pf_options \<Rightarrow> string" where
  "samplePrettyFormat v opts =
     (case v of JErrorInstance m \<Rightarrow> ''[Error: '' @ m @ '']'' | _ \<Rightarrow> ''[value]'')"

definition sampleMessages :: "(string \<times> jsval) list" where
  \<open>sampleMessages =
     [(''{"version":2,"type":"command","command":"reload"}'',
         JObject [(''version'', JNumber 2), (''type'', JString ''command''),
                  (''command'', JString ''reload'')]),
      (''{"version":1,"type":"command","command":"reload"}'',
         JObject [(''version'', JNumber 1), (''type'', JString ''command''),
                  (''command'', JString ''reload'')]),
      (''{"version":2,"type":"command","command":"crash","params":[1]}'',
         JObject [(''version'', JNumber 2), (''type'', JString ''command''),
                  (''command'', JString ''crash''), (''params'', JArray [JNumber 1])]),
      (''{"version":2,"type":"ping"}'',
         JObject [(''version'', JNumber 2), (''type'', JString ''ping'')]),
      (''{"version":2,"type":42,"extra":null}'',
         JObject [(''version'', JNumber 2), (''type'', JNumber 42), (''extra'', JNull)]),
      (''{"version":"2"}'', JObject [(''version'', JString ''2'')]),
      (''null'', JNull),
      (''2'', JNumber 2)]\<close>

definition sampleParse :: "string \<Rightarrow> jserror + jsval" where
  "sampleParse data =
     (case map_of sampleMessages data of
        Some v \<Rightarrow> Inr v
      | None \<Rightarrow> Inl (SyntaxError ''Unexpected token''))"

definition sampleSend :: "nat \<Rightarrow> jsval \<Rightarrow> jserror option" where
  "sampleSend ws payload =
     (if ws = 2 then Some (OtherError ''WebSocket is not open'') else None)"

definition sampleBroadcast :: "jsval \<Rightarrow> jsval \<Rightarrow> jserror option" where
  "sampleBroadcast command params =
     (if command = JString ''crash'' then Some (OtherError ''no app connected'') else None)"

definition sampleCollaborators :: "nat collaborators" where
  "sampleCollaborators =
     \<lparr>prettyFormat = samplePrettyFormat, JSON_parse = sampleParse, ws_send = sampleSend,
      messageSocket_broadcast = sampleBroadcast\<rparr>"

definition sampleServer :: "nat server" where
  "sampleServer =
     \<lparr>clients = [(''client#0'', 1), (''client#1'', 2), (''client#2'', 3)], nextClientId = 3\<rparr>"

section \<open>Properties\<close>

subsection \<open>Auxiliary facts\<close>

declare digitsOf.simps [simp del]

lemma bindE_simps [simp]:
  "bindE (Inl e) f = Inl e"
  "bindE (Inr x) f = f x"
  by (simp_all add: bindE_def)

lemma startsWith_iff: "startsWith s p \<longleftrightarrow> (\<exists>rest. s = p @ rest)"
  unfolding startsWith_def
  by (metis append_eq_conv_conj append_take_drop_id)

lemma digitsOf_nonempty: "digitsOf n \<noteq> []"
  by (subst digitsOf.simps) simp

lemma numberToString_nonempty: "numberToString i \<noteq> []"
  by (simp add: numberToString_def digitsOf_nonempty)

lemma JSON_stringify_nonempty: "JSON_stringify v = Inr (Some str) \<Longrightarrow> str \<noteq> []"
  unfolding JSON_stringify_def
  by (cases v)
    (auto simp: numberToString_nonempty quoteJSONString_def bindE_def split: sum.splits if_splits)

lemma serializeMessage_result:
  assumes "serializeMessage pf message = Inr (logs, r)"
  shows "(\<exists>e. r = JNull \<and> logs = [FailedToSerialize e]) \<or> (r = JUndefined \<and> logs = [])
         \<or> (\<exists>str. r = JString str \<and> str \<noteq> [] \<and> logs = [])"
  using assms unfolding serializeMessage_def
  by (auto simp: bindE_def dest: JSON_stringify_nonempty split: sum.splits option.splits)

lemma serializeMessage_truthy:
  "serializeMessage pf message = Inr (logs, r) \<Longrightarrow> truthy r \<longleftrightarrow> (\<exists>str. r = JString str)"
  by (drule serializeMessage_result) auto

lemma sends_simps [simp]:
  "sends [] = []"
  "sends (WsSend ws p # fx) = (ws, p) # sends fx"
  "sends (LoggerError l # fx) = sends fx"
  "sends (MessageSocketBroadcast c q # fx) = sends fx"
  "sends (fx @ fx') = sends fx @ sends fx'"
  by (simp_all add: sends_def)

lemma sends_logs [simp]: "sends (map LoggerError logs) = []"
  by (induction logs) simp_all

lemma sends_sendToAll: "sends (sendToAll send p cs) = map (\<lambda>(clientId, ws). (ws, p)) cs"
  by (induction cs) (auto split: option.splits)

lemma sendToAll_append:
  "sendToAll send p (cs @ cs') = sendToAll send p cs @ sendToAll send p cs'"
  by (induction cs) auto

lemma sample_foo:
  \<open>serializeMessage samplePrettyFormat (JObject [(''type'', JString ''foo'')])
     = Inr ([], JString ''{"type":"foo"}'')\<close>
  by code_simp

lemma sample_bigint:
  "serializeMessage samplePrettyFormat
     (JObject [(''error'', JErrorInstance ''boom''), (''big'', JBigInt 1)])
     = Inr ([FailedToSerialize (TypeError ''Do not know how to serialize a BigInt'')], JNull)"
  by code_simp

lemma sample_no_data:
  "serializeMessage samplePrettyFormat (JObject [(''type'', JString ''client_log'')])
     = Inl (TypeError ''Cannot read properties of undefined (reading 'map')'')"
  by code_simp

lemma sample_error_event:
  \<open>serializeMessage samplePrettyFormat
     (JObject [(''error'', JErrorInstance ''boom''), (''n'', JNumber 12)])
     = Inr ([], JString ''{"error":"[Error: boom]","n":12}'')\<close>
  by code_simp

lemma sample_client_log:
  \<open>serializeMessage samplePrettyFormat
     (JObject [(''type'', JString ''client_log''),
               (''data'', JArray [JString ''hi'', JObject [(''a'', JNumber 1)]])])
     = Inr ([], JString ''{"type":"client_log","data":["hi","[value]"]}'')\<close>
  by code_simp

lemma relayed_simps [simp]:
  "relayed [] = []"
  "relayed (MessageSocketBroadcast c q # fx) = (c, q) # relayed fx"
  "relayed (LoggerError l # fx) = relayed fx"
  "relayed (WsSend ws p # fx) = relayed fx"
  "relayed (fx @ fx') = relayed fx @ relayed fx'"
  by (simp_all add: relayed_def)

lemma relayed_logs [simp]: "relayed (map LoggerError logs) = []"
  by (induction logs) simp_all

text \<open>The encoder writes every property of an object that has a text into the result.\<close>

lemma serializeJSONObject_member:
  "serializeJSONObject ps = Inr parts \<Longrightarrow> map_of ps k = Some v \<Longrightarrow>
   serializeJSONProperty v = Inr (Some s) \<Longrightarrow> (quoteJSONString k @ CHR '':'' # s) \<in> set parts"
proof (induction ps arbitrary: parts)
  case Nil
  then show ?case by simp
next
  case (Cons p ps)
  obtain k' v' where p: "p = (k', v')" by (cases p)
  from Cons.prems(1) p obtain strP rest where
    v': "serializeJSONProperty v' = Inr strP" and rest: "serializeJSONObject ps = Inr rest"
    and parts: "parts = (case strP of None \<Rightarrow> rest
                         | Some s' \<Rightarrow> (quoteJSONString k' @ CHR '':'' # s') # rest)"
    by (auto simp: bindE_def split: sum.splits)
  show ?case
  proof (cases "k' = k")
    case True
    with Cons.prems(2) p have "v' = v" by simp
    with v' Cons.prems(3) have "strP = Some s" by simp
    with parts True show ?thesis by simp
  next
    case False
    with Cons.prems(2) p have "map_of ps k = Some v" by simp
    from Cons.IH [OF rest this Cons.prems(3)] parts show ?thesis
      by (auto split: option.splits)
  qed
qed

lemma joinComma_contains: "part \<in> set parts \<Longrightarrow> \<exists>a b. joinComma parts = a @ part @ b"
proof (induction parts rule: joinComma.induct)
  case 1
  then show ?case by simp
next
  case (2 x)
  then have "joinComma [x] = [] @ part @ []" by simp
  then show ?case by blast
next
  case (3 x y ys)
  show ?case
  proof (cases "part = x")
    case True
    then have "joinComma (x # y # ys) = [] @ part @ (CHR '','' # joinComma (y # ys))" by simp
    then show ?thesis by blast
  next
    case False
    with 3 obtain a b where "joinComma (y # ys) = a @ part @ b" by auto
    then have "joinComma (x # y # ys) = (x @ CHR '','' # a) @ part @ b" by simp
    then show ?thesis by blast
  qed
qed

lemma JSON_stringify_object_contains:
  assumes "JSON_stringify (JObject ps) = Inr r" "map_of ps k = Some v"
    "serializeJSONProperty v = Inr (Some s)"
  shows "\<exists>str a b. r = Some str \<and> str = a @ (quoteJSONString k @ CHR '':'' # s) @ b"
proof -
  from assms(1) obtain parts where parts: "serializeJSONObject ps = Inr parts"
    and r: "r = Some (CHR ''{'' # joinComma parts @ ''}'')"
    by (auto simp: JSON_stringify_def bindE_def split: sum.splits)
  from serializeJSONObject_member [OF parts assms(2,3)] joinComma_contains
  obtain a b where "joinComma parts = a @ (quoteJSONString k @ CHR '':'' # s) @ b" by blast
  with r have "r = Some ((CHR ''{'' # a) @ (quoteJSONString k @ CHR '':'' # s) @ (b @ ''}''))"
    by simp
  then show ?thesis by blast
qed

lemma serializeJSONArray_strings:
  "serializeJSONArray (map JString ts) = Inr (map quoteJSONString ts)"
  by (induction ts) simp_all

lemma getProp_update: "getProp (JObject (AList.update k v ps)) k = Inr v"
  by (simp add: update_conv')

lemma getProp_defined:
  "getProp message k = Inr v \<Longrightarrow> message \<noteq> JUndefined \<and> message \<noteq> JNull"
  by (cases message) auto

lemma getProp_total:
  "message \<noteq> JUndefined \<Longrightarrow> message \<noteq> JNull \<Longrightarrow> \<exists>v. getProp message k = Inr v"
  by (cases message) auto

lemma parseMessage_cases:
  "parseMessage decode raw =
     (case decode raw of
        Inl e \<Rightarrow> ([FailedToParse raw], JUndefined)
      | Inr message \<Rightarrow>
          (case getProp message ''version'' of
             Inl e \<Rightarrow> ([FailedToParse raw], JUndefined)
           | Inr version \<Rightarrow>
               if version = JNumber 2 then ([], message)
               else if concatRaises version then ([FailedToParse raw], JUndefined)
               else ([WrongProtocolVersion version], JUndefined)))"
  by (simp add: parseMessage_def PROTOCOL_VERSION_def bindE_def split: sum.splits)

text \<open>Decimal text determines the number, so the ids of two counts differ.\<close>

lemma length_digitsOf_one: "length (digitsOf n) = Suc 0 \<longleftrightarrow> n < 10"
proof (cases "n < 10")
  case True
  then show ?thesis by (simp add: digitsOf.simps [of n])
next
  case False
  have "digitsOf (n div 10) \<noteq> []" by (rule digitsOf_nonempty)
  then have "length (digitsOf (n div 10)) \<noteq> 0" by simp
  with False show ?thesis by (simp add: digitsOf.simps [of n])
qed

lemma digit_char_inj:
  "a < 10 \<Longrightarrow> b < 10 \<Longrightarrow> char_of (48 + a :: nat) = char_of (48 + b) \<Longrightarrow> a = b"
proof -
  assume a: "a < 10" and b: "b < 10" and eq: "char_of (48 + a :: nat) = char_of (48 + b)"
  from eq have "(of_char (char_of (48 + a :: nat)) :: nat) = of_char (char_of (48 + b))"
    by simp
  with a b show "a = b" by simp
qed

lemma digitsOf_inj: "digitsOf n = digitsOf m \<Longrightarrow> n = m"
proof (induction n arbitrary: m rule: digitsOf.induct)
  case (1 n)
  show ?case
  proof (cases "n < 10")
    case True
    then have "length (digitsOf n) = Suc 0" by (simp add: length_digitsOf_one)
    with "1.prems" have m: "m < 10" by (simp add: length_digitsOf_one)
    from True have dn: "digitsOf n = [char_of (48 + n)]" by (simp add: digitsOf.simps [of n])
    from m have dm: "digitsOf m = [char_of (48 + m)]" by (simp add: digitsOf.simps [of m])
    from "1.prems" dn dm have "char_of (48 + n) = char_of (48 + m)" by simp
    with True m show ?thesis by (rule digit_char_inj)
  next
    case False
    then have "length (digitsOf n) \<noteq> Suc 0" by (simp add: length_digitsOf_one)
    with "1.prems" have m: "\<not> m < 10" by (simp add: length_digitsOf_one)
    from False have dn: "digitsOf n = digitsOf (n div 10) @ [char_of (48 + n mod 10)]"
      by (simp add: digitsOf.simps [of n])
    from m have dm: "digitsOf m = digitsOf (m div 10) @ [char_of (48 + m mod 10)]"
      by (simp add: digitsOf.simps [of m])
    from "1.prems" dn dm have front: "digitsOf (n div 10) = digitsOf (m div 10)"
      and lst: "char_of (48 + n mod 10) = char_of (48 + m mod 10)" by simp_all
    from "1.IH" [OF False front] have q: "n div 10 = m div 10" .
    have "n mod 10 < 10" "m mod 10 < 10" by simp_all
    from this lst have r: "n mod 10 = m mod 10" by (rule digit_char_inj)
    from q r show ?thesis by (metis div_mult_mod_eq)
  qed
qed

lemma clientIdOf_inj: "clientIdOf n = clientIdOf m \<longleftrightarrow> n = m"
  by (auto simp: clientIdOf_def dest: digitsOf_inj)

text \<open>Neither the dispatcher nor the message handler changes the state.\<close>

lemma broadCastEvent_state: "broadCastEvent pf send st event = Inr (st', effects) \<Longrightarrow> st' = st"
  by (auto simp: broadCastEvent_def bindE_def split: if_splits sum.splits)

lemma onmessage_state: "onmessage decode broadcast st raw = Inr (st', effects) \<Longrightarrow> st' = st"
  by (auto simp: onmessage_def bindE_def split: if_splits sum.splits prod.splits)

lemma step_state:
  "(case step env st sig of Inl e \<Rightarrow> st | Inr (st', effects) \<Rightarrow> st') =
     (case sig of OnConnection clientWs \<Rightarrow> snd (onconnection st clientWs)
      | OnClose clientId \<Rightarrow> onclose st clientId
      | OnError clientId \<Rightarrow> onclose st clientId
      | _ \<Rightarrow> st)"
  by (cases sig)
    (auto simp: onerror_def reportEvent_def split: sum.splits
       dest: broadCastEvent_state onmessage_state)

lemma upt_split: "a \<le> b \<Longrightarrow> b \<le> c \<Longrightarrow> [a ..< c] = [a ..< b] @ [b ..< (c::nat)]"
  by (metis le_Suc_ex upt_add_eq_append)

lemma run_invariant:
  "run env st sigs = (ids, final) \<Longrightarrow>
     nextClientId st \<le> nextClientId final
     \<and> ids = map clientIdOf [nextClientId st ..< nextClientId final]
     \<and> (registryOk st \<longrightarrow> registryOk final)"
proof (induction sigs arbitrary: st ids final)
  case Nil
  then show ?case by simp
next
  case (Cons sig sigs)
  define st' where "st' = (case step env st sig of Inl e \<Rightarrow> st | Inr (st', effects) \<Rightarrow> st')"
  define assigned where
    "assigned = (case sig of OnConnection clientWs \<Rightarrow> [fst (onconnection st clientWs)] | _ \<Rightarrow> [])"
  obtain ids' final' where r: "run env st' sigs = (ids', final')"
    by (cases "run env st' sigs")
  from Cons.prems r have final: "final = final'" and ids: "ids = assigned @ ids'"
    by (simp_all add: Let_def st'_def assigned_def)
  from Cons.IH [OF r] have le': "nextClientId st' \<le> nextClientId final'"
    and ids': "ids' = map clientIdOf [nextClientId st' ..< nextClientId final']"
    and ok': "registryOk st' \<longrightarrow> registryOk final'"
    by simp_all
  have st'_eq: "st' =
     (case sig of OnConnection clientWs \<Rightarrow> snd (onconnection st clientWs)
      | OnClose clientId \<Rightarrow> onclose st clientId
      | OnError clientId \<Rightarrow> onclose st clientId
      | _ \<Rightarrow> st)"
    unfolding st'_def by (rule step_state)
  have le: "nextClientId st \<le> nextClientId st'"
    unfolding st'_eq by (cases sig) (simp_all add: onconnection_def onclose_def Let_def)
  have first: "assigned = map clientIdOf [nextClientId st ..< nextClientId st']"
    unfolding st'_eq assigned_def
    by (cases sig) (simp_all add: onconnection_def onclose_def Let_def)
  have ok: "registryOk st \<longrightarrow> registryOk st'"
    unfolding st'_eq registryOk_def
    by (cases sig)
      (auto simp: onconnection_def onclose_def Let_def distinct_update update_keys lessThan_Suc
         distinct_delete delete_keys distinct_removeAll simp del: set_map)
  from le le' have "[nextClientId st ..< nextClientId final'] =
      [nextClientId st ..< nextClientId st'] @ [nextClientId st' ..< nextClientId final']"
    by (rule upt_split)
  with ids ids' first have "ids = map clientIdOf [nextClientId st ..< nextClientId final']"
    by simp
  with le le' ok ok' final show ?case by simp
qed

text \<open>An entry of a well-formed registry leaves it only through its own close or error.\<close>

lemma update_other_keeps:
  "k \<noteq> k' \<Longrightarrow> (k, v) \<in> set al \<Longrightarrow> (k, v) \<in> set (AList.update k' v' al)"
  by (induction al) auto

lemma delete_other_keeps:
  "k \<noteq> k' \<Longrightarrow> (k, v) \<in> set al \<Longrightarrow> (k, v) \<in> set (AList.delete k' al)"
  by (induction al) auto

lemma step_keeps_client:
  assumes ok: "registryOk st" and reg: "(clientId, ws) \<in> set (clients st)"
    and sig: "sig \<noteq> OnClose clientId" "sig \<noteq> OnError clientId"
  shows "(clientId, ws) \<in>
    set (clients (case step env st sig of Inl e \<Rightarrow> st | Inr (st', effects) \<Rightarrow> st'))"
proof -
  from reg have "clientId \<in> set (map fst (clients st))" by force
  with ok obtain k where k: "clientId = clientIdOf k" "k < nextClientId st"
    by (auto simp: registryOk_def)
  then have fresh: "clientId \<noteq> clientIdOf (nextClientId st)"
    by (simp add: clientIdOf_inj)
  show ?thesis
    unfolding step_state
    using reg sig fresh
    by (cases sig)
      (simp_all add: onconnection_def onclose_def Let_def update_other_keeps delete_other_keeps)
qed

lemma sampleServer_ok: "registryOk sampleServer"
proof -
  have ids: "clientIdOf 0 = ''client#0''" "clientIdOf (Suc 0) = ''client#1''"
    "clientIdOf (Suc (Suc 0)) = ''client#2''"
    by code_simp+
  have "{..<nextClientId sampleServer} = {0, Suc 0, Suc (Suc 0)}"
    by (auto simp: sampleServer_def)
  then have "clientIdOf ` {..<nextClientId sampleServer} = {''client#0'', ''client#1'', ''client#2''}"
    by (simp add: ids)
  then show ?thesis by (simp add: registryOk_def sampleServer_def)
qed

lemma sampleParse_reload:
  \<open>sampleParse ''{"version":2,"type":"command","command":"reload"}'' =
     Inr (JObject [(''version'', JNumber 2), (''type'', JString ''command''),
                   (''command'', JString ''reload'')])\<close>
  by code_simp

lemma sampleParse_version1:
  \<open>sampleParse ''{"version":1,"type":"command","command":"reload"}'' =
     Inr (JObject [(''version'', JNumber 1), (''type'', JString ''command''),
                   (''command'', JString ''reload'')])\<close>
  by code_simp

lemma sampleParse_crash:
  \<open>sampleParse ''{"version":2,"type":"command","command":"crash","params":[1]}'' =
     Inr (JObject [(''version'', JNumber 2), (''type'', JString ''command''),
                   (''command'', JString ''crash''), (''params'', JArray [JNumber 1])])\<close>
  by code_simp

lemma sampleParse_ping:
  \<open>sampleParse ''{"version":2,"type":"ping"}'' =
     Inr (JObject [(''version'', JNumber 2), (''type'', JString ''ping'')])\<close>
  by code_simp

lemma sampleParse_loose:
  \<open>sampleParse ''{"version":2,"type":42,"extra":null}'' =
     Inr (JObject [(''version'', JNumber 2), (''type'', JNumber 42), (''extra'', JNull)])\<close>
  by code_simp

lemma sampleParse_text_version:
  \<open>sampleParse ''{"version":"2"}'' = Inr (JObject [(''version'', JString ''2'')])\<close>
  by code_simp

lemma sampleParse_null: "sampleParse ''null'' = Inr JNull"
  by code_simp

lemma sampleParse_garbage: "sampleParse ''{version:'' = Inl (SyntaxError ''Unexpected token'')"
  by code_simp

lemma run_sample:
  \<open>run sampleCollaborators attachToServer
     [OnConnection 1, OnConnection 2, ReportEvent (JObject [(''type'', JString ''client_log'')]),
      OnClose ''client#0'', OnError ''client#0'',
      OnMessage ''{"version":2,"type":"command","command":"reload"}'', OnConnection 3]
   = ([''client#0'', ''client#1'', ''client#2''],
      \<lparr>clients = [(''client#1'', 2), (''client#2'', 3)], nextClientId = 3\<rparr>)\<close>
  by code_simp

subsection \<open>The access filter\<close>

text \<open>
  C8, as the specification states it, fails on an empty origin header: the header is
  present, begins with neither prefix, and \<^verbatim>\<open>!origin\<close> accepts it.
\<close>

theorem verifyClient_empty_origin_counterexample:
  "verifyClient (Some []) \<and> Some [] \<noteq> (None :: string option)
   \<and> \<not> startsWith [] ''http://localhost:'' \<and> \<not> startsWith [] ''file:''"
  by (simp add: verifyClient_def startsWith_def)

text \<open>
  C8, amended: \<^verbatim>\<open>verifyClient\<close> accepts exactly when the origin header is absent or
  empty, or begins with \<^verbatim>\<open>http://localhost:\<close>, or begins with \<^verbatim>\<open>file:\<close>; it
  rejects every other value.
\<close>

theorem verifyClient_accepts:
  "verifyClient origin \<longleftrightarrow>
     origin = None \<or> origin = Some []
     \<or> (\<exists>rest. origin = Some (''http://localhost:'' @ rest))
     \<or> (\<exists>rest. origin = Some (''file:'' @ rest))"
  by (cases origin) (auto simp: verifyClient_def startsWith_iff)

theorem verifyClient_accepts_witness:
  "verifyClient (Some ''http://localhost:19000'') \<and> verifyClient (Some ''file:///index.html'')
   \<and> verifyClient None \<and> \<not> verifyClient (Some ''https://evil.example.com'')
   \<and> \<not> verifyClient (Some ''http://localhost.evil.com'')"
  using verifyClient_accepts [of "Some ''http://localhost:19000''"]
    verifyClient_accepts [of "Some ''file:///index.html''"]
    verifyClient_accepts [of None]
    verifyClient_accepts [of "Some ''https://evil.example.com''"]
    verifyClient_accepts [of "Some ''http://localhost.evil.com''"]
  by simp

subsection \<open>The broadcast dispatcher\<close>

text \<open>
  C1: for every event passed to \<^verbatim>\<open>reportEvent\<close>: with an empty registry nothing is
  serialized (the call returns with no effect at all, whatever the event) and no client is
  sent anything; when serialization fails (it raises, or gives no text) no client is sent
  anything; otherwise every registered client is sent, once and in registry order, the one
  text that the single call of \<^verbatim>\<open>serializeMessage\<close> gave.
\<close>

theorem reportEvent_broadcast:
  "(clients st = [] \<longrightarrow> reportEvent pf send st event = Inr (st, []))
   \<and> (clients st \<noteq> [] \<longrightarrow>
        (\<forall>e. serializeMessage pf event = Inl e \<longrightarrow> reportEvent pf send st event = Inl e)
      \<and> (\<forall>logs r. serializeMessage pf event = Inr (logs, r) \<longrightarrow> (\<forall>str. r \<noteq> JString str) \<longrightarrow>
            reportEvent pf send st event = Inr (st, map LoggerError logs)
            \<and> sends (map LoggerError logs :: 'a effect list) = [])
      \<and> (\<forall>logs str. serializeMessage pf event = Inr (logs, JString str) \<longrightarrow>
            (\<exists>effects. reportEvent pf send st event = Inr (st, effects)
               \<and> sends effects = map (\<lambda>(clientId, ws). (ws, JString str)) (clients st))))"
proof (intro conjI impI allI)
  assume "clients st = []"
  then show "reportEvent pf send st event = Inr (st, [])"
    by (simp add: reportEvent_def broadCastEvent_def)
next
  fix e assume "clients st \<noteq> []" "serializeMessage pf event = Inl e"
  then show "reportEvent pf send st event = Inl e"
    by (simp add: reportEvent_def broadCastEvent_def)
next
  fix logs r
  assume ne: "clients st \<noteq> []" and ser: "serializeMessage pf event = Inr (logs, r)"
    and r: "\<forall>str. r \<noteq> JString str"
  from serializeMessage_truthy [OF ser] r have "\<not> truthy r" by simp
  with ne ser show "reportEvent pf send st event = Inr (st, map LoggerError logs)"
    by (simp add: reportEvent_def broadCastEvent_def)
next
  fix logs r
  show "sends (map LoggerError logs :: 'a effect list) = []" by simp
next
  fix logs str
  assume ne: "clients st \<noteq> []" and ser: "serializeMessage pf event = Inr (logs, JString str)"
  from serializeMessage_truthy [OF ser] have t: "truthy (JString str)" by blast
  from ne ser t have "reportEvent pf send st event =
      Inr (st, map LoggerError logs @ sendToAll send (JString str) (clients st))"
    by (simp add: reportEvent_def broadCastEvent_def)
  then show "\<exists>effects. reportEvent pf send st event = Inr (st, effects)
               \<and> sends effects = map (\<lambda>(clientId, ws). (ws, JString str)) (clients st)"
    by (simp add: sends_sendToAll)
qed

theorem reportEvent_broadcast_witness:
  \<open>reportEvent samplePrettyFormat sampleSend (attachToServer :: nat server)
      (JObject [(''type'', JString ''client_log'')]) = Inr (attachToServer, [])
   \<and> clients sampleServer \<noteq> []
   \<and> reportEvent samplePrettyFormat sampleSend sampleServer
        (JObject [(''type'', JString ''client_log'')])
      = Inl (TypeError ''Cannot read properties of undefined (reading 'map')'')
   \<and> reportEvent samplePrettyFormat sampleSend sampleServer
        (JObject [(''error'', JErrorInstance ''boom''), (''big'', JBigInt 1)])
      = Inr (sampleServer,
          [LoggerError (FailedToSerialize (TypeError ''Do not know how to serialize a BigInt''))])
   \<and> (\<exists>effects.
        reportEvent samplePrettyFormat sampleSend sampleServer (JObject [(''type'', JString ''foo'')])
          = Inr (sampleServer, effects)
        \<and> sends effects = [(1, JString ''{"type":"foo"}''), (2, JString ''{"type":"foo"}''),
                           (3, JString ''{"type":"foo"}'')])\<close>
proof -
  have empty: "clients (attachToServer :: nat server) = []"
    by (simp add: attachToServer_def)
  have ne: "clients sampleServer \<noteq> []"
    by (simp add: sampleServer_def)
  have cs: "map (\<lambda>(clientId, ws). (ws, p)) (clients sampleServer) = [(1, p), (2, p), (3, p)]" for p :: jsval
    by (simp add: sampleServer_def)
  note r1 = reportEvent_broadcast [of attachToServer samplePrettyFormat sampleSend
      "JObject [(''type'', JString ''client_log'')]"]
  note r2 = reportEvent_broadcast [of sampleServer samplePrettyFormat sampleSend
      "JObject [(''type'', JString ''client_log'')]"]
  note r3 = reportEvent_broadcast [of sampleServer samplePrettyFormat sampleSend
      "JObject [(''error'', JErrorInstance ''boom''), (''big'', JBigInt 1)]"]
  note r4 = reportEvent_broadcast [of sampleServer samplePrettyFormat sampleSend
      "JObject [(''type'', JString ''foo'')]"]
  from r1 empty have c1: "reportEvent samplePrettyFormat sampleSend (attachToServer :: nat server)
      (JObject [(''type'', JString ''client_log'')]) = Inr (attachToServer, [])"
    by blast
  from r2 ne sample_no_data have c2: "reportEvent samplePrettyFormat sampleSend sampleServer
        (JObject [(''type'', JString ''client_log'')])
      = Inl (TypeError ''Cannot read properties of undefined (reading 'map')'')"
    by blast
  from r3 ne sample_bigint have c3: "reportEvent samplePrettyFormat sampleSend sampleServer
        (JObject [(''error'', JErrorInstance ''boom''), (''big'', JBigInt 1)])
      = Inr (sampleServer,
          [LoggerError (FailedToSerialize (TypeError ''Do not know how to serialize a BigInt''))])"
    by simp
  from r4 ne sample_foo have c4: \<open>\<exists>effects.
        reportEvent samplePrettyFormat sampleSend sampleServer (JObject [(''type'', JString ''foo'')])
          = Inr (sampleServer, effects)
        \<and> sends effects = [(1, JString ''{"type":"foo"}''), (2, JString ''{"type":"foo"}''),
                           (3, JString ''{"type":"foo"}'')]\<close>
    by (simp add: cs)
  from c1 ne c2 c3 c4 show ?thesis by blast
qed

text \<open>
  C2: when \<^verbatim>\<open>ws.send\<close> raises for one registered client, the exception is caught and
  logged right after the attempt, the loop goes on over every client behind it, each of
  which is sent the payload, the call returns normally, and the state it returns, the
  failing client's entry included, is the state it was given. In a well-formed registry
  the entry then stays through every later signal but the close or the error signal of its
  own id.
\<close>

theorem broadCastEvent_isolates_failure:
  assumes reg: "clients st = before @ (clientId, ws) # after"
    and ser: "serializeMessage pf event = Inr (logs, JString str)"
    and fails: "send ws (JString str) = Some e"
  shows "\<exists>effects. reportEvent pf send st event = Inr (st, effects)
      \<and> effects = map LoggerError logs @ sendToAll send (JString str) before
           @ [WsSend ws (JString str), LoggerError (FailedToSend e)]
           @ sendToAll send (JString str) after
      \<and> sends (sendToAll send (JString str) after)
           = map (\<lambda>(clientId, ws). (ws, JString str)) after
      \<and> sends effects = map (\<lambda>(clientId, ws). (ws, JString str)) (clients st)
      \<and> (clientId, ws) \<in> set (clients st)
      \<and> (\<forall>sig. registryOk st \<longrightarrow> sig \<noteq> OnClose clientId \<longrightarrow> sig \<noteq> OnError clientId \<longrightarrow>
            (clientId, ws) \<in> set (clients
               (case step env st sig of Inl e \<Rightarrow> st | Inr (st', effects) \<Rightarrow> st')))"
proof -
  from reg have ne: "clients st \<noteq> []" by simp
  from serializeMessage_truthy [OF ser] have t: "truthy (JString str)" by blast
  from ne ser t have result: "reportEvent pf send st event =
      Inr (st, map LoggerError logs @ sendToAll send (JString str) (clients st))"
    by (simp add: reportEvent_def broadCastEvent_def)
  from fails have parts: "sendToAll send (JString str) (clients st) =
      sendToAll send (JString str) before
        @ [WsSend ws (JString str), LoggerError (FailedToSend e)]
        @ sendToAll send (JString str) after"
    by (simp add: reg sendToAll_append)
  have every: "sends (map LoggerError logs @ sendToAll send (JString str) (clients st))
      = map (\<lambda>(clientId, ws). (ws, JString str)) (clients st)"
    by (simp add: sends_sendToAll)
  from reg have registered: "(clientId, ws) \<in> set (clients st)" by simp
  have stays: "\<forall>sig. registryOk st \<longrightarrow> sig \<noteq> OnClose clientId \<longrightarrow> sig \<noteq> OnError clientId \<longrightarrow>
            (clientId, ws) \<in> set (clients
               (case step env st sig of Inl e \<Rightarrow> st | Inr (st', effects) \<Rightarrow> st'))"
    using registered by (blast intro: step_keeps_client)
  from result parts every registered stays show ?thesis
    by (simp add: sends_sendToAll)
qed

theorem broadCastEvent_isolates_failure_witness:
  \<open>clients sampleServer = [(''client#0'', 1)] @ (''client#1'', 2) # [(''client#2'', 3)]
   \<and> sampleSend 2 (JString ''{"type":"foo"}'') = Some (OtherError ''WebSocket is not open'')
   \<and> reportEvent samplePrettyFormat sampleSend sampleServer (JObject [(''type'', JString ''foo'')])
       = Inr (sampleServer,
           [WsSend 1 (JString ''{"type":"foo"}''),
            WsSend 2 (JString ''{"type":"foo"}''),
            LoggerError (FailedToSend (OtherError ''WebSocket is not open'')),
            WsSend 3 (JString ''{"type":"foo"}'')])
   \<and> registryOk sampleServer
   \<and> (''client#1'', 2) \<in> set (clients
        (case step sampleCollaborators sampleServer (OnClose ''client#0'') of
           Inl e \<Rightarrow> sampleServer | Inr (st'', effects) \<Rightarrow> st''))\<close>
proof -
  have reg: "clients sampleServer = [(''client#0'', 1)] @ (''client#1'', 2) # [(''client#2'', 3)]"
    by (simp add: sampleServer_def)
  have fails: \<open>sampleSend 2 (JString ''{"type":"foo"}'') = Some (OtherError ''WebSocket is not open'')\<close>
    by (simp add: sampleSend_def)
  have other: "OnClose ''client#0'' \<noteq> (OnClose ''client#1'' :: nat signal)"
    "OnClose ''client#0'' \<noteq> (OnError ''client#1'' :: nat signal)"
    by simp_all
  note isolated = broadCastEvent_isolates_failure
    [where st = sampleServer and before = "[(''client#0'', 1)]" and clientId = "''client#1''"
       and ws = 2 and after = "[(''client#2'', 3)]" and pf = samplePrettyFormat
       and event = "JObject [(''type'', JString ''foo'')]" and logs = "[]"
       and str = \<open>''{"type":"foo"}''\<close> and send = sampleSend
       and e = "OtherError ''WebSocket is not open''" and env = sampleCollaborators,
     OF reg sample_foo fails]
  from isolated
  have sent: \<open>reportEvent samplePrettyFormat sampleSend sampleServer (JObject [(''type'', JString ''foo'')])
       = Inr (sampleServer,
           [WsSend 1 (JString ''{"type":"foo"}''),
            WsSend 2 (JString ''{"type":"foo"}''),
            LoggerError (FailedToSend (OtherError ''WebSocket is not open'')),
            WsSend 3 (JString ''{"type":"foo"}'')])\<close>
    by (auto simp: sampleSend_def)
  from isolated
  have "\<forall>sig. registryOk sampleServer \<longrightarrow> sig \<noteq> OnClose ''client#1'' \<longrightarrow>
          sig \<noteq> OnError ''client#1'' \<longrightarrow>
          (''client#1'', 2) \<in> set (clients
             (case step sampleCollaborators sampleServer sig of
                Inl e \<Rightarrow> sampleServer | Inr (st'', effects) \<Rightarrow> st''))"
    by (elim exE conjE)
  from this [rule_format, OF sampleServer_ok other]
  have stays: "(''client#1'', 2) \<in> set (clients
        (case step sampleCollaborators sampleServer (OnClose ''client#0'') of
           Inl e \<Rightarrow> sampleServer | Inr (st'', effects) \<Rightarrow> st''))" .
  show ?thesis
    by (rule conjI [OF reg conjI [OF fails conjI [OF sent conjI [OF sampleServer_ok stays]]]])
qed

subsection \<open>The codec: serialization\<close>

text \<open>
  C3, as the specification states it, fails: an event whose \<^verbatim>\<open>error\<close> is an Error
  and which carries a BigInt in another field is not serializable. The Error is replaced,
  the encoder raises on the BigInt, and \<^verbatim>\<open>serializeMessage\<close> logs and returns
  \<^verbatim>\<open>null\<close>.
\<close>

theorem serializeMessage_error_event_counterexample:
  "getProp (JObject [(''error'', JErrorInstance ''boom''), (''big'', JBigInt 1)]) ''error''
     = Inr (JErrorInstance ''boom'')
   \<and> instanceofError (JErrorInstance ''boom'')
   \<and> serializeMessage samplePrettyFormat
        (JObject [(''error'', JErrorInstance ''boom''), (''big'', JBigInt 1)])
     = Inr ([FailedToSerialize (TypeError ''Do not know how to serialize a BigInt'')], JNull)"
  by code_simp

text \<open>
  C3, amended: for every event whose \<^verbatim>\<open>error\<close> field is an Error,
  \<^verbatim>\<open>serializeMessage\<close> never raises; the value it encodes is the event with the
  \<^verbatim>\<open>error\<close> field replaced by the text \<^verbatim>\<open>prettyFormat\<close> gives for the error
  under depth 3, single line and escaped strings; when the encoder accepts that value the
  result is its text, which contains the rendering as the \<^verbatim>\<open>error\<close> member, and
  when the encoder raises on it the failure is logged and the result is \<^verbatim>\<open>null\<close>.
\<close>

theorem serializeMessage_error_event:
  assumes err: "getProp event ''error'' = Inr err" and inst: "instanceofError err"
  shows "\<exists>substituted.
      substituted = JObject (AList.update ''error'' (JString (pf err errorOptions)) (spread event))
    \<and> toSerialize pf event = Inr substituted
    \<and> getProp substituted ''error'' = Inr (JString (pf err errorOptions))
    \<and> maxDepth errorOptions = 3 \<and> min' errorOptions \<and> escapeString errorOptions
    \<and> (case JSON_stringify substituted of
          Inl e \<Rightarrow> serializeMessage pf event = Inr ([FailedToSerialize e], JNull)
        | Inr r \<Rightarrow> \<exists>str a b. r = Some str \<and> serializeMessage pf event = Inr ([], JString str)
             \<and> str = a @ (quoteJSONString ''error'' @ CHR '':'' #
                           quoteJSONString (pf err errorOptions)) @ b)"
proof -
  let ?sub = "JObject (AList.update ''error'' (JString (pf err errorOptions)) (spread event))"
  from inst obtain m where m: "err = JErrorInstance m" by (cases err) auto
  with err obtain ps where ev: "event = JObject ps" by (cases event) auto
  from err m ev have to: "toSerialize pf event = Inr ?sub"
    by (simp add: toSerialize_def)
  have get: "getProp ?sub ''error'' = Inr (JString (pf err errorOptions))"
    by (rule getProp_update)
  have opts: "maxDepth errorOptions = 3 \<and> min' errorOptions \<and> escapeString errorOptions"
    by (simp add: errorOptions_def)
  have enc: "(case JSON_stringify ?sub of
          Inl e \<Rightarrow> serializeMessage pf event = Inr ([FailedToSerialize e], JNull)
        | Inr r \<Rightarrow> \<exists>str a b. r = Some str \<and> serializeMessage pf event = Inr ([], JString str)
             \<and> str = a @ (quoteJSONString ''error'' @ CHR '':'' #
                           quoteJSONString (pf err errorOptions)) @ b)"
  proof (cases "JSON_stringify ?sub")
    case (Inl e)
    with to show ?thesis by (simp add: serializeMessage_def)
  next
    case (Inr r)
    have look: "map_of (AList.update ''error'' (JString (pf err errorOptions)) (spread event))
        ''error'' = Some (JString (pf err errorOptions))"
      by (simp add: update_conv')
    from JSON_stringify_object_contains [OF Inr look] obtain str a b where
      "r = Some str"
      "str = a @ (quoteJSONString ''error'' @ CHR '':'' # quoteJSONString (pf err errorOptions)) @ b"
      by auto
    with Inr to show ?thesis by (auto simp: serializeMessage_def)
  qed
  from to get opts enc show ?thesis by blast
qed

theorem serializeMessage_error_event_witness:
  \<open>getProp (JObject [(''error'', JErrorInstance ''boom''), (''n'', JNumber 12)]) ''error''
     = Inr (JErrorInstance ''boom'')
   \<and> instanceofError (JErrorInstance ''boom'')
   \<and> toSerialize samplePrettyFormat
        (JObject [(''error'', JErrorInstance ''boom''), (''n'', JNumber 12)])
     = Inr (JObject [(''error'', JString ''[Error: boom]''), (''n'', JNumber 12)])
   \<and> serializeMessage samplePrettyFormat
        (JObject [(''error'', JErrorInstance ''boom''), (''n'', JNumber 12)])
     = Inr ([], JString ''{"error":"[Error: boom]","n":12}'')\<close>
proof -
  have err: "getProp (JObject [(''error'', JErrorInstance ''boom''), (''n'', JNumber 12)]) ''error''
     = Inr (JErrorInstance ''boom'')"
    by simp
  have inst: "instanceofError (JErrorInstance ''boom'')" by simp
  from serializeMessage_error_event [OF err inst, of samplePrettyFormat]
  have "toSerialize samplePrettyFormat
        (JObject [(''error'', JErrorInstance ''boom''), (''n'', JNumber 12)])
     = Inr (JObject [(''error'', JString ''[Error: boom]''), (''n'', JNumber 12)])"
    by (simp add: samplePrettyFormat_def)
  with err inst sample_error_event show ?thesis by blast
qed

text \<open>
  C4, as the specification states it, fails: a \<^verbatim>\<open>client_log\<close> event whose
  \<^verbatim>\<open>data\<close> mixes a text and an object, and which carries a BigInt in another field,
  yields no payload. Only \<^verbatim>\<open>data\<close> is rewritten, the encoder raises on the BigInt,
  and \<^verbatim>\<open>serializeMessage\<close> logs and returns \<^verbatim>\<open>null\<close>.
\<close>

theorem serializeMessage_client_log_counterexample:
  "getProp (JObject [(''type'', JString ''client_log''),
                     (''data'', JArray [JString ''hi'', JObject [(''a'', JNumber 1)]]),
                     (''big'', JBigInt 1)]) ''type'' = Inr (JString ''client_log'')
   \<and> getProp (JObject [(''type'', JString ''client_log''),
                     (''data'', JArray [JString ''hi'', JObject [(''a'', JNumber 1)]]),
                     (''big'', JBigInt 1)]) ''error'' = Inr JUndefined
   \<and> \<not> instanceofError JUndefined
   \<and> getProp (JObject [(''type'', JString ''client_log''),
                     (''data'', JArray [JString ''hi'', JObject [(''a'', JNumber 1)]]),
                     (''big'', JBigInt 1)]) ''data''
       = Inr (JArray [JString ''hi'', JObject [(''a'', JNumber 1)]])
   \<and> serializeMessage samplePrettyFormat
        (JObject [(''type'', JString ''client_log''),
                  (''data'', JArray [JString ''hi'', JObject [(''a'', JNumber 1)]]),
                  (''big'', JBigInt 1)])
     = Inr ([FailedToSerialize (TypeError ''Do not know how to serialize a BigInt'')], JNull)"
  by code_simp

text \<open>
  C4, amended: for every \<^verbatim>\<open>client_log\<close> event whose \<^verbatim>\<open>error\<close> is not an Error
  and whose \<^verbatim>\<open>data\<close> is an array, the value that is encoded has a \<^verbatim>\<open>data\<close>
  array of the same length, in which a text element is the element itself and any other
  element is the text \<^verbatim>\<open>prettyFormat\<close> gives for it under depth 3, single line and
  escaped strings; when the encoder accepts that value the result is its text, which
  contains that array, element by element, as its \<^verbatim>\<open>data\<close> member, and when the
  encoder raises on it the failure is logged and the result is \<^verbatim>\<open>null\<close>.
\<close>

theorem serializeMessage_client_log:
  assumes ty: "getProp event ''type'' = Inr (JString ''client_log'')"
    and err: "getProp event ''error'' = Inr err" and inst: "\<not> instanceofError err"
    and data: "getProp event ''data'' = Inr (JArray items)"
  shows "\<exists>substituted items'.
      substituted = JObject (AList.update ''data'' (JArray items') (spread event))
    \<and> toSerialize pf event = Inr substituted
    \<and> getProp substituted ''data'' = Inr (JArray items')
    \<and> length items' = length items
    \<and> (\<forall>i < length items.
          (case items ! i of
             JString s \<Rightarrow> items' ! i = items ! i
           | _ \<Rightarrow> items' ! i = JString (pf (items ! i) clientLogOptions)))
    \<and> maxDepth clientLogOptions = 3 \<and> min' clientLogOptions \<and> escapeString clientLogOptions
    \<and> (case JSON_stringify substituted of
          Inl e \<Rightarrow> serializeMessage pf event = Inr ([FailedToSerialize e], JNull)
        | Inr r \<Rightarrow> \<exists>str a b. r = Some str \<and> serializeMessage pf event = Inr ([], JString str)
             \<and> str = a @ (quoteJSONString ''data'' @ '':['' @
                  joinComma (map (\<lambda>item. quoteJSONString
                     (case item of JString s \<Rightarrow> s | _ \<Rightarrow> pf item clientLogOptions)) items)
                  @ '']'') @ b)"
proof -
  let ?text = "\<lambda>item. case item of JString s \<Rightarrow> s | _ \<Rightarrow> pf item clientLogOptions"
  let ?items' = "map (formatItem pf) items"
  let ?sub = "JObject (AList.update ''data'' (JArray ?items') (spread event))"
  from ty obtain ps where ev: "event = JObject ps" by (cases event) auto
  from ev ty err inst data have to: "toSerialize pf event = Inr ?sub"
    by (simp add: toSerialize_def)
  have get: "getProp ?sub ''data'' = Inr (JArray ?items')"
    by (rule getProp_update)
  have elems: "\<forall>i < length items.
          (case items ! i of
             JString s \<Rightarrow> ?items' ! i = items ! i
           | _ \<Rightarrow> ?items' ! i = JString (pf (items ! i) clientLogOptions))"
    by (auto simp: formatItem_def split: jsval.splits)
  have opts: "maxDepth clientLogOptions = 3 \<and> min' clientLogOptions \<and> escapeString clientLogOptions"
    by (simp add: clientLogOptions_def)
  have one: "formatItem pf item = JString (?text item)" for item
    by (cases item) (simp_all add: formatItem_def)
  have as_strings: "?items' = map JString (map ?text items)"
    by (simp add: one)
  have arr: "serializeJSONProperty (JArray ?items')
      = Inr (Some (CHR ''['' # joinComma (map quoteJSONString (map ?text items)) @ '']''))"
    unfolding as_strings
    by (simp only: serializeJSONProperty.simps serializeJSONArray_strings bindE_simps)
  have enc: "(case JSON_stringify ?sub of
          Inl e \<Rightarrow> serializeMessage pf event = Inr ([FailedToSerialize e], JNull)
        | Inr r \<Rightarrow> \<exists>str a b. r = Some str \<and> serializeMessage pf event = Inr ([], JString str)
             \<and> str = a @ (quoteJSONString ''data'' @ '':['' @
                  joinComma (map (\<lambda>item. quoteJSONString (?text item)) items)
                  @ '']'') @ b)"
  proof (cases "JSON_stringify ?sub")
    case (Inl e)
    with to show ?thesis by (simp add: serializeMessage_def)
  next
    case (Inr r)
    have look: "map_of (AList.update ''data'' (JArray ?items') (spread event)) ''data''
        = Some (JArray ?items')"
      by (simp add: update_conv')
    from JSON_stringify_object_contains [OF Inr look arr] obtain str a b where
      "r = Some str" "str = a @ (quoteJSONString ''data'' @ CHR '':'' #
         CHR ''['' # joinComma (map quoteJSONString (map ?text items)) @ '']'') @ b"
      by auto
    with Inr to show ?thesis by (auto simp: serializeMessage_def comp_def)
  qed
  from to get elems opts enc show ?thesis by (intro exI conjI) simp_all
qed

theorem serializeMessage_client_log_witness:
  \<open>toSerialize samplePrettyFormat
      (JObject [(''type'', JString ''client_log''),
                (''data'', JArray [JString ''hi'', JObject [(''a'', JNumber 1)]])])
     = Inr (JObject [(''type'', JString ''client_log''),
                     (''data'', JArray [JString ''hi'', JString ''[value]''])])
   \<and> serializeMessage samplePrettyFormat
      (JObject [(''type'', JString ''client_log''),
                (''data'', JArray [JString ''hi'', JObject [(''a'', JNumber 1)]])])
     = Inr ([], JString ''{"type":"client_log","data":["hi","[value]"]}'')\<close>
proof -
  let ?event = "JObject [(''type'', JString ''client_log''),
                (''data'', JArray [JString ''hi'', JObject [(''a'', JNumber 1)]])]"
  have ty: "getProp ?event ''type'' = Inr (JString ''client_log'')" by simp
  have err: "getProp ?event ''error'' = Inr JUndefined" by simp
  have inst: "\<not> instanceofError JUndefined" by simp
  have data: "getProp ?event ''data'' = Inr (JArray [JString ''hi'', JObject [(''a'', JNumber 1)]])"
    by simp
  from serializeMessage_client_log [OF ty err inst data, of samplePrettyFormat]
  obtain items' where
    to: "toSerialize samplePrettyFormat ?event
           = Inr (JObject (AList.update ''data'' (JArray items') (spread ?event)))"
    and len: "length items' = 2"
    and elems: "\<forall>i < 2. (case [JString ''hi'', JObject [(''a'', JNumber 1)]] ! i of
             JString s \<Rightarrow> items' ! i = [JString ''hi'', JObject [(''a'', JNumber 1)]] ! i
           | _ \<Rightarrow> items' ! i = JString (samplePrettyFormat
                  ([JString ''hi'', JObject [(''a'', JNumber 1)]] ! i) clientLogOptions))"
    by auto
  have "items' ! 0 = JString ''hi''"
    using elems [THEN spec, of 0] by simp
  moreover have "items' ! 1 = JString ''[value]''"
    using elems [THEN spec, of 1] by (simp add: samplePrettyFormat_def)
  ultimately have "items' = [JString ''hi'', JString ''[value]'']"
    using len by (cases items'; cases "tl items'") auto
  with to have "toSerialize samplePrettyFormat ?event
     = Inr (JObject [(''type'', JString ''client_log''),
                     (''data'', JArray [JString ''hi'', JString ''[value]''])])"
    by simp
  with sample_client_log show ?thesis by blast
qed

text \<open>
  C10: \<^verbatim>\<open>serializeMessage\<close> is total on \<^verbatim>\<open>client_log\<close> events only when
  \<^verbatim>\<open>data\<close> is an array. For a \<^verbatim>\<open>client_log\<close> event whose \<^verbatim>\<open>error\<close> is not
  an Error, it raises exactly when \<^verbatim>\<open>data\<close> is absent or not an array; the exception
  then is not \<^verbatim>\<open>null\<close> with a log entry but a raise, and with a client registered it
  leaves \<^verbatim>\<open>reportEvent\<close> too.
\<close>

theorem reportEvent_client_log_raises:
  assumes ty: "getProp event ''type'' = Inr (JString ''client_log'')"
    and err: "getProp event ''error'' = Inr err" and inst: "\<not> instanceofError err"
    and data: "getProp event ''data'' = Inr d"
  shows "((\<exists>e. serializeMessage pf event = Inl e) \<longleftrightarrow> (\<forall>items. d \<noteq> JArray items))
     \<and> (\<forall>e. serializeMessage pf event = Inl e \<longrightarrow> clients st \<noteq> [] \<longrightarrow>
           reportEvent pf send st event = Inl e)"
proof -
  from ty obtain ps where ev: "event = JObject ps" by (cases event) auto
  from ev ty err inst data have to: "toSerialize pf event =
      bindE (dataMap (formatItem pf) d)
        (\<lambda>mapped. Inr (JObject (AList.update ''data'' mapped (spread event))))"
    by (simp add: toSerialize_def)
  have "(\<exists>e. serializeMessage pf event = Inl e) \<longleftrightarrow> (\<forall>items. d \<noteq> JArray items)"
    unfolding serializeMessage_def to
    by (cases d) (auto split: sum.splits option.splits)
  moreover have "\<forall>e. serializeMessage pf event = Inl e \<longrightarrow> clients st \<noteq> [] \<longrightarrow>
           reportEvent pf send st event = Inl e"
    by (simp add: reportEvent_def broadCastEvent_def)
  ultimately show ?thesis by blast
qed

theorem reportEvent_client_log_raises_witness:
  "getProp (JObject [(''type'', JString ''client_log'')]) ''data'' = Inr JUndefined
   \<and> serializeMessage samplePrettyFormat (JObject [(''type'', JString ''client_log'')])
       = Inl (TypeError ''Cannot read properties of undefined (reading 'map')'')
   \<and> clients sampleServer \<noteq> []
   \<and> reportEvent samplePrettyFormat sampleSend sampleServer
       (JObject [(''type'', JString ''client_log'')])
       = Inl (TypeError ''Cannot read properties of undefined (reading 'map')'')"
proof -
  let ?event = "JObject [(''type'', JString ''client_log'')]"
  have ty: "getProp ?event ''type'' = Inr (JString ''client_log'')" by simp
  have err: "getProp ?event ''error'' = Inr JUndefined" by simp
  have inst: "\<not> instanceofError JUndefined" by simp
  have data: "getProp ?event ''data'' = Inr JUndefined" by simp
  have ne: "clients sampleServer \<noteq> []" by (simp add: sampleServer_def)
  from reportEvent_client_log_raises [OF ty err inst data,
      of samplePrettyFormat sampleServer sampleSend] sample_no_data ne
  have "reportEvent samplePrettyFormat sampleSend sampleServer ?event
       = Inl (TypeError ''Cannot read properties of undefined (reading 'map')'')"
    by blast
  with data sample_no_data ne show ?thesis by blast
qed

subsection \<open>The codec: parsing\<close>

text \<open>
  C5: \<^verbatim>\<open>parseMessage\<close> rejects (returns \<^verbatim>\<open>undefined\<close>, with a log entry)
  exactly when the decoder raises or the decoded value has no \<^verbatim>\<open>version\<close> equal to
  the number 2; otherwise it returns the decoded value as it is, whatever its other
  fields are, and logs nothing.
\<close>

theorem parseMessage_rejects_exactly:
  "(snd (parseMessage decode raw) = JUndefined \<longleftrightarrow>
      (\<exists>e. decode raw = Inl e)
      \<or> (\<exists>message. decode raw = Inr message
            \<and> getProp message ''version'' \<noteq> Inr (JNumber PROTOCOL_VERSION)))
   \<and> (\<forall>message. decode raw = Inr message \<longrightarrow>
         getProp message ''version'' = Inr (JNumber PROTOCOL_VERSION) \<longrightarrow>
         parseMessage decode raw = ([], message))
   \<and> (snd (parseMessage decode raw) = JUndefined \<longrightarrow> fst (parseMessage decode raw) \<noteq> [])
   \<and> PROTOCOL_VERSION = 2"
  unfolding parseMessage_cases PROTOCOL_VERSION_def
  by (auto split: sum.splits dest: getProp_defined)

theorem parseMessage_rejects_exactly_witness:
  \<open>parseMessage sampleParse ''{"version":2,"type":42,"extra":null}''
     = ([], JObject [(''version'', JNumber 2), (''type'', JNumber 42), (''extra'', JNull)])
   \<and> snd (parseMessage sampleParse ''{version:'') = JUndefined
   \<and> snd (parseMessage sampleParse ''{"version":1,"type":"command","command":"reload"}'')
       = JUndefined
   \<and> snd (parseMessage sampleParse ''{"version":"2"}'') = JUndefined
   \<and> snd (parseMessage sampleParse ''null'') = JUndefined\<close>
proof -
  note r = parseMessage_rejects_exactly [where decode = sampleParse]
  have v2: "getProp (JObject [(''version'', JNumber 2), (''type'', JNumber 42), (''extra'', JNull)])
      ''version'' = Inr (JNumber PROTOCOL_VERSION)"
    by (simp add: PROTOCOL_VERSION_def)
  from r [where raw = \<open>''{"version":2,"type":42,"extra":null}''\<close>] sampleParse_loose v2
  have c1: \<open>parseMessage sampleParse ''{"version":2,"type":42,"extra":null}''
     = ([], JObject [(''version'', JNumber 2), (''type'', JNumber 42), (''extra'', JNull)])\<close>
    by blast
  from r [where raw = "''{version:''"] sampleParse_garbage
  have c2: "snd (parseMessage sampleParse ''{version:'') = JUndefined"
    by blast
  have v1: "getProp (JObject [(''version'', JNumber 1), (''type'', JString ''command''),
                   (''command'', JString ''reload'')]) ''version'' \<noteq> Inr (JNumber PROTOCOL_VERSION)"
    by (simp add: PROTOCOL_VERSION_def)
  from r [where raw = \<open>''{"version":1,"type":"command","command":"reload"}''\<close>]
    sampleParse_version1 v1
  have c3: \<open>snd (parseMessage sampleParse ''{"version":1,"type":"command","command":"reload"}'')
       = JUndefined\<close>
    by blast
  have vs: "getProp (JObject [(''version'', JString ''2'')]) ''version''
      \<noteq> Inr (JNumber PROTOCOL_VERSION)"
    by simp
  from r [where raw = \<open>''{"version":"2"}''\<close>] sampleParse_text_version vs
  have c4: \<open>snd (parseMessage sampleParse ''{"version":"2"}'') = JUndefined\<close>
    by blast
  have vn: "getProp JNull ''version'' \<noteq> Inr (JNumber PROTOCOL_VERSION)"
    by simp
  from r [where raw = "''null''"] sampleParse_null vn
  have c5: "snd (parseMessage sampleParse ''null'') = JUndefined"
    by blast
  from c1 c2 c3 c4 c5 show ?thesis by blast
qed

subsection \<open>The command relay\<close>

text \<open>
  C6: for every inbound text whose decoded value has a \<^verbatim>\<open>version\<close> other than 2,
  \<^verbatim>\<open>messageSocket.broadcast\<close> is not called: the handler returns normally, leaves the
  state as it was, and its only effect is the log entry of the parser.
\<close>

theorem onmessage_version_mismatch:
  assumes "decode raw = Inr message"
    and "getProp message ''version'' \<noteq> Inr (JNumber PROTOCOL_VERSION)"
  shows "\<exists>effects. onmessage decode broadcast st raw = Inr (st, effects)
     \<and> relayed effects = []
     \<and> effects = map LoggerError (fst (parseMessage decode raw)) \<and> effects \<noteq> []"
proof -
  from assms have "snd (parseMessage decode raw) = JUndefined"
     and "fst (parseMessage decode raw) \<noteq> []"
    unfolding parseMessage_cases PROTOCOL_VERSION_def by (auto split: sum.splits)
  then show ?thesis
    by (cases "parseMessage decode raw") (simp add: onmessage_def)
qed

theorem onmessage_version_mismatch_witness:
  \<open>onmessage sampleParse sampleBroadcast sampleServer
      ''{"version":1,"type":"command","command":"reload"}''
     = Inr (sampleServer, [LoggerError (WrongProtocolVersion (JNumber 1))])
   \<and> relayed [LoggerError (WrongProtocolVersion (JNumber 1)) :: nat effect] = []\<close>
proof -
  have v1: "getProp (JObject [(''version'', JNumber 1), (''type'', JString ''command''),
                   (''command'', JString ''reload'')]) ''version'' \<noteq> Inr (JNumber PROTOCOL_VERSION)"
    by (simp add: PROTOCOL_VERSION_def)
  have logs: \<open>fst (parseMessage sampleParse ''{"version":1,"type":"command","command":"reload"}'')
      = [WrongProtocolVersion (JNumber 1)]\<close>
    unfolding parseMessage_cases sampleParse_version1 by simp
  from onmessage_version_mismatch
    [where decode = sampleParse and broadcast = sampleBroadcast and st = sampleServer
       and raw = \<open>''{"version":1,"type":"command","command":"reload"}''\<close>
       and message = "JObject [(''version'', JNumber 1), (''type'', JString ''command''),
                   (''command'', JString ''reload'')]"]
    sampleParse_version1 v1
  show ?thesis
    unfolding logs by auto
qed

text \<open>
  C7: for every inbound text that parses to an envelope: when its \<^verbatim>\<open>type\<close> is
  \<^verbatim>\<open>command\<close>, \<^verbatim>\<open>messageSocket.broadcast\<close> is called exactly once, with the
  envelope's \<^verbatim>\<open>command\<close> and \<^verbatim>\<open>params\<close>, an exception of that call is caught
  and logged, and the handler returns normally with the state, hence the connection's
  registry entry, as it was; when its \<^verbatim>\<open>type\<close> is anything else the only effect is the
  log entry of the unknown type.
\<close>

theorem onmessage_command:
  assumes "parseMessage decode raw = (logs, message)" and "message \<noteq> JUndefined"
  shows "\<exists>type command params.
       getProp message ''type'' = Inr type \<and> getProp message ''command'' = Inr command
     \<and> getProp message ''params'' = Inr params
     \<and> (if type = JString ''command'' then
          \<exists>effects. onmessage decode broadcast st raw = Inr (st, effects)
            \<and> relayed effects = [(command, params)]
            \<and> effects = MessageSocketBroadcast command params #
                (case broadcast command params of
                   None \<Rightarrow> []
                 | Some e \<Rightarrow> [LoggerError (FailedToForward e)])
        else onmessage decode broadcast st raw
               = Inr (st, [LoggerError (UnknownMessageType type)]))"
proof -
  from assms have ver: "getProp message ''version'' = Inr (JNumber 2)" and logs: "logs = []"
    unfolding parseMessage_cases by (auto split: sum.splits if_splits)
  from getProp_defined [OF ver] have nn: "message \<noteq> JUndefined" "message \<noteq> JNull"
    by simp_all
  from getProp_total [OF nn] obtain t c p where
    g: "getProp message ''type'' = Inr t" "getProp message ''command'' = Inr c"
       "getProp message ''params'' = Inr p"
    by metis
  from assms(1) logs nn g have "if t = JString ''command'' then
          \<exists>effects. onmessage decode broadcast st raw = Inr (st, effects)
            \<and> relayed effects = [(c, p)]
            \<and> effects = MessageSocketBroadcast c p #
                (case broadcast c p of
                   None \<Rightarrow> []
                 | Some e \<Rightarrow> [LoggerError (FailedToForward e)])
        else onmessage decode broadcast st raw
               = Inr (st, [LoggerError (UnknownMessageType t)])"
    by (auto simp: onmessage_def split: option.splits)
  with g show ?thesis by blast
qed

theorem onmessage_command_witness:
  \<open>onmessage sampleParse sampleBroadcast sampleServer
      ''{"version":2,"type":"command","command":"reload"}''
     = Inr (sampleServer, [MessageSocketBroadcast (JString ''reload'') JUndefined])
   \<and> onmessage sampleParse sampleBroadcast sampleServer
      ''{"version":2,"type":"command","command":"crash","params":[1]}''
     = Inr (sampleServer,
         [MessageSocketBroadcast (JString ''crash'') (JArray [JNumber 1]),
          LoggerError (FailedToForward (OtherError ''no app connected''))])
   \<and> onmessage sampleParse sampleBroadcast sampleServer ''{"version":2,"type":"ping"}''
     = Inr (sampleServer, [LoggerError (UnknownMessageType (JString ''ping''))])\<close>
proof -
  let ?reload = "JObject [(''version'', JNumber 2), (''type'', JString ''command''),
                   (''command'', JString ''reload'')]"
  let ?crash = "JObject [(''version'', JNumber 2), (''type'', JString ''command''),
                   (''command'', JString ''crash''), (''params'', JArray [JNumber 1])]"
  let ?ping = "JObject [(''version'', JNumber 2), (''type'', JString ''ping'')]"
  have p1: \<open>parseMessage sampleParse ''{"version":2,"type":"command","command":"reload"}''
      = ([], ?reload)\<close>
    unfolding parseMessage_cases sampleParse_reload by simp
  have p2: \<open>parseMessage sampleParse ''{"version":2,"type":"command","command":"crash","params":[1]}''
      = ([], ?crash)\<close>
    unfolding parseMessage_cases sampleParse_crash by simp
  have p3: \<open>parseMessage sampleParse ''{"version":2,"type":"ping"}'' = ([], ?ping)\<close>
    unfolding parseMessage_cases sampleParse_ping by simp
  from onmessage_command [OF p1, of sampleBroadcast sampleServer]
  have c1: \<open>onmessage sampleParse sampleBroadcast sampleServer
      ''{"version":2,"type":"command","command":"reload"}''
     = Inr (sampleServer, [MessageSocketBroadcast (JString ''reload'') JUndefined])\<close>
    by (auto simp: sampleBroadcast_def)
  from onmessage_command [OF p2, of sampleBroadcast sampleServer]
  have c2: \<open>onmessage sampleParse sampleBroadcast sampleServer
      ''{"version":2,"type":"command","command":"crash","params":[1]}''
     = Inr (sampleServer,
         [MessageSocketBroadcast (JString ''crash'') (JArray [JNumber 1]),
          LoggerError (FailedToForward (OtherError ''no app connected''))])\<close>
    by (auto simp: sampleBroadcast_def)
  from onmessage_command [OF p3, of sampleBroadcast sampleServer]
  have c3: \<open>onmessage sampleParse sampleBroadcast sampleServer ''{"version":2,"type":"ping"}''
     = Inr (sampleServer, [LoggerError (UnknownMessageType (JString ''ping''))])\<close>
    by auto
  from c1 c2 c3 show ?thesis by blast
qed

subsection \<open>The connection registry\<close>

text \<open>
  C9: after any sequence of signals from the state \<^verbatim>\<open>attachToServer\<close> creates, the
  registry holds no two entries with the same id; the ids assigned so far are, in the order
  of assignment, those of the counts 0, 1, 2, ... below the counter, so they are pairwise
  different (an id, removed or not, is never assigned again), and every id in the registry
  is one of them.
\<close>

theorem registry_ids_unique:
  "(case run env attachToServer sigs of
      (ids, final) \<Rightarrow>
        distinct (map fst (clients final))
      \<and> ids = map clientIdOf [0 ..< nextClientId final]
      \<and> distinct ids
      \<and> (\<forall>i j. i < j \<longrightarrow> j < length ids \<longrightarrow> ids ! i \<noteq> ids ! j)
      \<and> set (map fst (clients final)) \<subseteq> set ids)"
proof -
  obtain ids final where r: "run env attachToServer sigs = (ids, final)"
    by (cases "run env attachToServer sigs")
  have init: "registryOk (attachToServer :: 'a server)"
    "nextClientId (attachToServer :: 'a server) = 0"
    by (simp_all add: registryOk_def attachToServer_def)
  from run_invariant [OF r] init have ids: "ids = map clientIdOf [0 ..< nextClientId final]"
    and ok: "registryOk final" by simp_all
  from ids have d: "distinct ids" by (simp add: distinct_map inj_on_def clientIdOf_inj)
  then have "\<forall>i j. i < j \<longrightarrow> j < length ids \<longrightarrow> ids ! i \<noteq> ids ! j"
    by (auto simp: distinct_conv_nth)
  moreover from ok ids have "set (map fst (clients final)) \<subseteq> set ids"
    by (auto simp: registryOk_def)
  ultimately show ?thesis using r ok ids d by (simp add: registryOk_def)
qed

theorem registry_ids_unique_witness:
  \<open>run sampleCollaborators attachToServer
     [OnConnection 1, OnConnection 2, ReportEvent (JObject [(''type'', JString ''client_log'')]),
      OnClose ''client#0'', OnError ''client#0'',
      OnMessage ''{"version":2,"type":"command","command":"reload"}'', OnConnection 3]
   = ([''client#0'', ''client#1'', ''client#2''],
      \<lparr>clients = [(''client#1'', 2), (''client#2'', 3)], nextClientId = 3\<rparr>)
   \<and> [''client#0'', ''client#1'', ''client#2''] = map clientIdOf [0 ..< 3]
   \<and> distinct [''client#0'', ''client#1'', ''client#2'']
   \<and> distinct (map fst [(''client#1'', 2 :: nat), (''client#2'', 3)])\<close>
proof -
  note unique = registry_ids_unique [where env = sampleCollaborators and sigs =
     \<open>[OnConnection 1, OnConnection 2, ReportEvent (JObject [(''type'', JString ''client_log'')]),
      OnClose ''client#0'', OnError ''client#0'',
      OnMessage ''{"version":2,"type":"command","command":"reload"}'', OnConnection 3]\<close>,
     unfolded run_sample prod.case server.select_convs]
  from unique have registry: "distinct (map fst [(''client#1'', 2 :: nat), (''client#2'', 3)])"
    by (rule conjunct1)
  from unique have counts: "[''client#0'', ''client#1'', ''client#2''] = map clientIdOf [0 ..< 3]"
    by (rule conjunct2 [THEN conjunct1])
  from unique have ids: "distinct [''client#0'', ''client#1'', ''client#2'']"
    by (rule conjunct2 [THEN conjunct2, THEN conjunct1])
  show ?thesis
    by (rule conjI [OF run_sample conjI [OF counts conjI [OF ids registry]]])
qed

end
